theory Spec2Isabelle
  imports Main
begin

section \<open>Address-set references (go-controller/pkg/ovn/address_set.go)\<close>

subsection \<open>Go values used by the code\<close>

text \<open>
  A Go string is a sequence of bytes: \<^typ>\<open>string\<close>. A Go slice is either \<open>nil\<close> or a
  non-nil slice holding a (possibly empty) sequence; \<open>newAddressSetRef\<close> tests
  \<open>args == nil\<close>, so the difference is kept: \<open>None\<close> is \<open>nil\<close>. A pointer result
  \<open>*AddressSetRef\<close> is an option as well, \<open>None\<close> being the \<open>nil\<close> that
  \<open>parseAddressSetRef\<close> returns on error.
\<close>

type_synonym 'a slice = "'a list option"

text \<open>The elements of a slice, as \<open>append(xs, s...)\<close> and \<open>len(s)\<close> see them: none for \<open>nil\<close>.\<close>

definition elems :: "'a slice \<Rightarrow> 'a list" where
  "elems s = (case s of None \<Rightarrow> [] | Some xs \<Rightarrow> xs)"

text \<open>\<open>strings.Join(elems, sep)\<close>: the elements with \<open>sep\<close> between neighbours.\<close>

fun strings_Join :: "string list \<Rightarrow> string \<Rightarrow> string" where
  "strings_Join [] sep = []"
| "strings_Join [x] sep = x"
| "strings_Join (x # y # ys) sep = x @ sep @ strings_Join (y # ys) sep"

text \<open>
  \<open>strings.Split(s, sep)\<close> for a separator of one byte, which is how the code calls it
  (\<open>"."\<close>): the substrings between the separators, so one more part than there are
  separators, and the single part \<open>""\<close> for the empty string.
\<close>

fun strings_Split :: "string \<Rightarrow> char \<Rightarrow> string list" where
  "strings_Split [] sep = [[]]"
| "strings_Split (c # cs) sep =
     (if c = sep then [] # strings_Split cs sep
      else (case strings_Split cs sep of
              [] \<Rightarrow> [[c]]
            | p # ps \<Rightarrow> (c # p) # ps))"

text \<open>
  Modelled from the spec: \<open>hashForOVN\<close>, the digest of a display name, is defined outside
  the files at hand. The spec treats it as a pluggable pure function from strings to
  strings, so every operation below takes it as its first argument.
\<close>

type_synonym digest = "string \<Rightarrow> string"

subsection \<open>The reference and its two constructors\<close>

record AddressSetRef =
  OwnerType :: string
  OwnerNamespace :: string
  OwnerName :: string
  IPv6 :: bool
  Args :: "string slice"
  DisplayName :: string
  HashedName :: string

text \<open>The zero value of the struct: what a field holds until it is assigned.\<close>

definition zeroAddressSetRef :: AddressSetRef where
  "zeroAddressSetRef =
     \<lparr>OwnerType = [], OwnerNamespace = [], OwnerName = [], IPv6 = False, Args = None,
      DisplayName = [], HashedName = []\<rparr>"

definition newAddressSetRef ::
    "digest \<Rightarrow> string \<Rightarrow> bool \<Rightarrow> string \<Rightarrow> string \<Rightarrow> string slice \<Rightarrow> AddressSetRef option" where
  "newAddressSetRef hashForOVN ownerType ipv6 ownerNamespace ownerName args =
     (let ref = zeroAddressSetRef
                  \<lparr>OwnerType := ownerType, OwnerNamespace := ownerNamespace,
                   OwnerName := ownerName, IPv6 := ipv6, Args := args\<rparr>;
          nameParts =
            (if ownerType = ''Namespace'' \<and> \<not> ipv6 \<and> ownerName = [] \<and> args = None
             then [ownerNamespace]
             else if ownerType = ''NetworkPolicy'' \<and> \<not> ipv6
             then [ownerNamespace, ownerName] @ elems args
             else [[], ownerType] @ [if ipv6 then ''v6'' else ''v4'']
                    @ [ownerNamespace, ownerName] @ elems args);
          ref = ref\<lparr>DisplayName := strings_Join nameParts ''.''\<rparr>;
          ref = ref\<lparr>HashedName := hashForOVN (DisplayName ref)\<rparr>
      in Some ref)"

definition parseAddressSetRef :: "digest \<Rightarrow> string \<Rightarrow> AddressSetRef option" where
  "parseAddressSetRef hashForOVN displayName =
     (let ref = zeroAddressSetRef
                  \<lparr>DisplayName := displayName, HashedName := hashForOVN displayName\<rparr>;
          nameParts = strings_Split displayName (CHR ''.'')
      in if length nameParts > 5 \<and> nameParts ! 0 = [] then
           Some (ref\<lparr>OwnerType := nameParts ! 1, IPv6 := (nameParts ! 2 = ''v6''),
                      OwnerNamespace := nameParts ! 3, OwnerName := nameParts ! 4,
                      Args := Some (drop 5 nameParts)\<rparr>)
         else if length nameParts > 1 \<and> nameParts ! 0 \<noteq> [] then
           Some (ref\<lparr>OwnerType := ''NetworkPolicy'', IPv6 := False,
                      OwnerNamespace := nameParts ! 0, OwnerName := nameParts ! 1,
                      Args := Some (drop 2 nameParts)\<rparr>)
         else if length nameParts = 1 \<and> nameParts ! 0 \<noteq> [] then
           Some (ref\<lparr>OwnerType := ''Namespace'', IPv6 := False,
                      OwnerNamespace := nameParts ! 0\<rparr>)
         else None)"

text \<open>
  Encoding a tuple and decoding the display name that comes out: the composition
  \<open>parseAddressSetRef(newAddressSetRef(...).DisplayName)\<close> that the round-trip law is about.
\<close>

definition reparse ::
    "digest \<Rightarrow> string \<Rightarrow> bool \<Rightarrow> string \<Rightarrow> string \<Rightarrow> string slice \<Rightarrow> AddressSetRef option" where
  "reparse hashForOVN ownerType ipv6 ownerNamespace ownerName args =
     (case newAddressSetRef hashForOVN ownerType ipv6 ownerNamespace ownerName args of
        None \<Rightarrow> None
      | Some ref \<Rightarrow> parseAddressSetRef hashForOVN (DisplayName ref))"

subsection \<open>Splitting and joining\<close>

lemma strings_Split_not_Nil: "strings_Split s sep \<noteq> []"
  by (induction s) (auto split: list.splits)

lemma strings_Split_no_sep: "sep \<notin> set x \<Longrightarrow> strings_Split x sep = [x]"
  by (induction x) auto

lemma strings_Split_append:
  "sep \<notin> set x \<Longrightarrow> strings_Split (x @ sep # rest) sep = x # strings_Split rest sep"
  by (induction x) auto

lemma strings_Split_Join:
  "parts \<noteq> [] \<Longrightarrow> (\<forall>p \<in> set parts. sep \<notin> set p)
     \<Longrightarrow> strings_Split (strings_Join parts [sep]) sep = parts"
proof (induction parts "[sep]" rule: strings_Join.induct)
  case 1
  then show ?case by simp
next
  case (2 x)
  then show ?case by (simp add: strings_Split_no_sep)
next
  case (3 x y ys)
  then show ?case by (simp add: strings_Split_append)
qed

lemma strings_Split_length: "1 \<le> length (strings_Split s sep)"
  using strings_Split_not_Nil [of s sep] by (cases "strings_Split s sep") auto

subsection \<open>Round trip, one encoding rule at a time\<close>

lemma reparse_bare:
  assumes "CHR ''.'' \<notin> set ownerNamespace" "ownerNamespace \<noteq> []"
  shows "reparse h ''Namespace'' False ownerNamespace [] None =
         Some (zeroAddressSetRef\<lparr>DisplayName := ownerNamespace, HashedName := h ownerNamespace,
                 OwnerType := ''Namespace'', IPv6 := False, OwnerNamespace := ownerNamespace\<rparr>)"
  using assms
  by (simp add: reparse_def newAddressSetRef_def parseAddressSetRef_def strings_Split_no_sep)

lemma reparse_compact:
  assumes "CHR ''.'' \<notin> set ownerNamespace" "ownerNamespace \<noteq> []" "CHR ''.'' \<notin> set ownerName"
    "CHR ''.'' \<notin> set (concat (elems args))"
  shows "\<exists>r. reparse h ''NetworkPolicy'' False ownerNamespace ownerName args = Some r
          \<and> OwnerType r = ''NetworkPolicy'' \<and> IPv6 r = False \<and> OwnerNamespace r = ownerNamespace
          \<and> OwnerName r = ownerName \<and> Args r = Some (elems args)"
proof -
  let ?parts = "ownerNamespace # ownerName # elems args"
  have "strings_Split (strings_Join ?parts [CHR ''.'']) (CHR ''.'') = ?parts"
    using assms by (intro strings_Split_Join) auto
  then show ?thesis
    using assms(2)
    by (simp add: reparse_def newAddressSetRef_def parseAddressSetRef_def Let_def)
qed

lemma reparse_tagged:
  assumes "CHR ''.'' \<notin> set ownerType" "CHR ''.'' \<notin> set ownerNamespace" "CHR ''.'' \<notin> set ownerName"
    "CHR ''.'' \<notin> set (concat (elems args))" "elems args \<noteq> []"
    "\<not> (ownerType = ''NetworkPolicy'' \<and> \<not> ipv6)"
  shows "\<exists>r. reparse h ownerType ipv6 ownerNamespace ownerName args = Some r
          \<and> OwnerType r = ownerType \<and> IPv6 r = ipv6 \<and> OwnerNamespace r = ownerNamespace
          \<and> OwnerName r = ownerName \<and> Args r = Some (elems args)"
proof -
  let ?fam = "if ipv6 then ''v6'' else ''v4''"
  let ?parts = "[] # ownerType # ?fam # ownerNamespace # ownerName # elems args"
  have split: "strings_Split (strings_Join ?parts [CHR ''.'']) (CHR ''.'') = ?parts"
    using assms by (intro strings_Split_Join) auto
  have notbare: "args \<noteq> None" using assms(5) by (auto simp: elems_def split: option.splits)
  have len: "length (elems args) > 0" using assms(5) by simp
  show ?thesis
    using assms(6) notbare len split
    by (auto simp add: reparse_def newAddressSetRef_def parseAddressSetRef_def Let_def)
qed

section \<open>The encoder\<close>

text \<open>
  C2. \<open>newAddressSetRef\<close> applies three rules, the first that matches: (1) owner type
  \<open>"Namespace"\<close>, IPv4, empty owner name and \<open>nil\<close> args give the owner namespace as the
  display name; (2) otherwise owner type \<open>"NetworkPolicy"\<close> with IPv4 gives the owner
  namespace, the owner name and the args joined with \<open>.\<close>; (3) everything else gives the
  empty string, the owner type, \<open>v6\<close> or \<open>v4\<close>, the owner namespace, the owner name and the
  args joined with \<open>.\<close>, which starts with a \<open>.\<close>.
\<close>

theorem newAddressSetRef_three_rules:
  "\<exists>r. newAddressSetRef h ownerType ipv6 ownerNamespace ownerName args = Some r
     \<and> (ownerType = ''Namespace'' \<and> \<not> ipv6 \<and> ownerName = [] \<and> args = None
          \<longrightarrow> DisplayName r = ownerNamespace)
     \<and> (\<not> (ownerType = ''Namespace'' \<and> \<not> ipv6 \<and> ownerName = [] \<and> args = None)
          \<and> ownerType = ''NetworkPolicy'' \<and> \<not> ipv6
          \<longrightarrow> DisplayName r = strings_Join (ownerNamespace # ownerName # elems args) ''.'')
     \<and> (\<not> (ownerType = ''Namespace'' \<and> \<not> ipv6 \<and> ownerName = [] \<and> args = None)
          \<and> \<not> (ownerType = ''NetworkPolicy'' \<and> \<not> ipv6)
          \<longrightarrow> DisplayName r =
                strings_Join ([] # ownerType # (if ipv6 then ''v6'' else ''v4'')
                                # ownerNamespace # ownerName # elems args) ''.''
              \<and> DisplayName r =
                ''.'' @ strings_Join (ownerType # (if ipv6 then ''v6'' else ''v4'')
                                        # ownerNamespace # ownerName # elems args) ''.'')"
  by (simp add: newAddressSetRef_def)

theorem newAddressSetRef_three_rules_witness:
  "(\<exists>r. newAddressSetRef id ''Namespace'' False ''testing'' [] None = Some r
      \<and> DisplayName r = ''testing'')
   \<and> (\<exists>r. newAddressSetRef id ''NetworkPolicy'' False ''testing'' ''policy''
             (Some [''ingress'', ''1'']) = Some r
      \<and> DisplayName r = ''testing.policy.ingress.1'')
   \<and> (\<exists>r. newAddressSetRef id ''NetworkPolicy'' True ''testing'' ''policy''
             (Some [''ingress'', ''1'']) = Some r
      \<and> DisplayName r = ''.NetworkPolicy.v6.testing.policy.ingress.1'')
   \<and> (\<exists>r. newAddressSetRef id ''Namespace'' False ''testing'' ''also-testing'' None = Some r
      \<and> DisplayName r = ''.Namespace.v4.testing.also-testing'')"
  using newAddressSetRef_three_rules [of id "''Namespace''" False "''testing''" "[]" None]
    newAddressSetRef_three_rules [of id "''NetworkPolicy''" False "''testing''" "''policy''"
      "Some [''ingress'', ''1'']"]
    newAddressSetRef_three_rules [of id "''NetworkPolicy''" True "''testing''" "''policy''"
      "Some [''ingress'', ''1'']"]
    newAddressSetRef_three_rules [of id "''Namespace''" False "''testing''" "''also-testing''" None]
  by (auto simp: elems_def)

text \<open>
  C6. \<open>newAddressSetRef\<close> is total: for every owner type, family, owner namespace, owner
  name and args, empty strings included, it returns a reference (never \<open>nil\<close>) whose hashed
  name is the digest of its display name. \<open>nil\<close> comes from \<open>parseAddressSetRef\<close> only,
  as for the empty display name.
\<close>

theorem newAddressSetRef_total:
  "(\<exists>r. newAddressSetRef h ownerType ipv6 ownerNamespace ownerName args = Some r
       \<and> HashedName r = h (DisplayName r))
   \<and> newAddressSetRef h ownerType ipv6 ownerNamespace ownerName args \<noteq> None
   \<and> parseAddressSetRef h [] = None"
  by (simp add: newAddressSetRef_def parseAddressSetRef_def Let_def)

text \<open>
  C8. The display name does not determine the tuple, even without any \<open>.\<close> in the
  components: two different tuples, all of their strings free of \<open>.\<close>, have the same
  display name. The \<open>"NetworkPolicy"\<close> IPv4 reference with empty owner namespace, owner
  name \<open>"Namespace"\<close> and args \<open>"v4"\<close>, \<open>"testing"\<close>, \<open>"policy"\<close> and
  the \<open>"Namespace"\<close> IPv4 reference of \<open>"testing"\<close> named \<open>"policy"\<close> both give
  \<open>".Namespace.v4.testing.policy"\<close>.
\<close>

theorem newAddressSetRef_not_injective:
  "\<exists>ownerType ipv6 ownerNamespace ownerName args ownerType' ipv6' ownerNamespace' ownerName' args'.
     (ownerType, ipv6, ownerNamespace, ownerName, args)
       \<noteq> (ownerType', ipv6', ownerNamespace', ownerName', args')
     \<and> CHR ''.'' \<notin> set ownerType \<union> set ownerNamespace \<union> set ownerName \<union> set (concat (elems args))
     \<and> CHR ''.'' \<notin> set ownerType' \<union> set ownerNamespace' \<union> set ownerName' \<union> set (concat (elems args'))
     \<and> map_option DisplayName (newAddressSetRef h ownerType ipv6 ownerNamespace ownerName args)
       = map_option DisplayName (newAddressSetRef h ownerType' ipv6' ownerNamespace' ownerName' args')
     \<and> newAddressSetRef h ownerType ipv6 ownerNamespace ownerName args \<noteq> None"
proof -
  let ?a = "Some [''v4'', ''testing'', ''policy'']"
  have "(''NetworkPolicy'', False, [], ''Namespace'', ?a)
          \<noteq> (''Namespace'', False, ''testing'', ''policy'', None)
      \<and> CHR ''.'' \<notin> set ''NetworkPolicy'' \<union> set [] \<union> set ''Namespace'' \<union> set (concat (elems ?a))
      \<and> CHR ''.'' \<notin> set ''Namespace'' \<union> set ''testing'' \<union> set ''policy''
                       \<union> set (concat (elems (None :: string slice)))
      \<and> map_option DisplayName (newAddressSetRef h ''NetworkPolicy'' False [] ''Namespace'' ?a)
          = map_option DisplayName (newAddressSetRef h ''Namespace'' False ''testing'' ''policy'' None)
      \<and> newAddressSetRef h ''NetworkPolicy'' False [] ''Namespace'' ?a \<noteq> None"
    by (simp add: newAddressSetRef_def elems_def)
  then show ?thesis by (intro exI)
qed

section \<open>The decoder\<close>

text \<open>
  C3. \<open>parseAddressSetRef\<close> splits the display name on \<open>.\<close> and classifies in order: more
  than 5 parts with an empty first part is the tagged form (owner type \<open>parts[1]\<close>, IPv6
  exactly when \<open>parts[2]\<close> is \<open>"v6"\<close>, namespace \<open>parts[3]\<close>, name \<open>parts[4]\<close>, args
  \<open>parts[5:]\<close>); else more than 1 part with a non-empty first part is a \<open>"NetworkPolicy"\<close>
  IPv4 reference (namespace \<open>parts[0]\<close>, name \<open>parts[1]\<close>, args \<open>parts[2:]\<close>); else exactly
  one non-empty part is a \<open>"Namespace"\<close> IPv4 reference with that namespace, an empty name
  and no args.
\<close>

theorem parseAddressSetRef_classification:
  assumes "parts = strings_Split displayName (CHR ''.'')"
  shows "(length parts > 5 \<and> parts ! 0 = [] \<longrightarrow>
            parseAddressSetRef h displayName =
              Some \<lparr>OwnerType = parts ! 1, OwnerNamespace = parts ! 3, OwnerName = parts ! 4,
                    IPv6 = (parts ! 2 = ''v6''), Args = Some (drop 5 parts),
                    DisplayName = displayName, HashedName = h displayName\<rparr>)
       \<and> (\<not> (length parts > 5 \<and> parts ! 0 = []) \<and> length parts > 1 \<and> parts ! 0 \<noteq> [] \<longrightarrow>
            parseAddressSetRef h displayName =
              Some \<lparr>OwnerType = ''NetworkPolicy'', OwnerNamespace = parts ! 0,
                    OwnerName = parts ! 1, IPv6 = False, Args = Some (drop 2 parts),
                    DisplayName = displayName, HashedName = h displayName\<rparr>)
       \<and> (\<not> (length parts > 5 \<and> parts ! 0 = []) \<and> \<not> (length parts > 1 \<and> parts ! 0 \<noteq> [])
            \<and> length parts = 1 \<and> parts ! 0 \<noteq> [] \<longrightarrow>
            parseAddressSetRef h displayName =
              Some \<lparr>OwnerType = ''Namespace'', OwnerNamespace = parts ! 0, OwnerName = [],
                    IPv6 = False, Args = None,
                    DisplayName = displayName, HashedName = h displayName\<rparr>)"
  unfolding assms by (simp add: parseAddressSetRef_def zeroAddressSetRef_def Let_def)

theorem parseAddressSetRef_classification_witness:
  "parseAddressSetRef id ''.Namespace.v6.testing..blah.blah'' =
     Some \<lparr>OwnerType = ''Namespace'', OwnerNamespace = ''testing'', OwnerName = [],
           IPv6 = True, Args = Some [''blah'', ''blah''],
           DisplayName = ''.Namespace.v6.testing..blah.blah'',
           HashedName = ''.Namespace.v6.testing..blah.blah''\<rparr>
   \<and> parseAddressSetRef id ''testing.policy.ingress.1'' =
     Some \<lparr>OwnerType = ''NetworkPolicy'', OwnerNamespace = ''testing'', OwnerName = ''policy'',
           IPv6 = False, Args = Some [''ingress'', ''1''],
           DisplayName = ''testing.policy.ingress.1'',
           HashedName = ''testing.policy.ingress.1''\<rparr>
   \<and> parseAddressSetRef id ''testing'' =
     Some \<lparr>OwnerType = ''Namespace'', OwnerNamespace = ''testing'', OwnerName = [],
           IPv6 = False, Args = None,
           DisplayName = ''testing'', HashedName = ''testing''\<rparr>"
  using parseAddressSetRef_classification [of _ "''.Namespace.v6.testing..blah.blah''" id, OF refl]
    parseAddressSetRef_classification [of _ "''testing.policy.ingress.1''" id, OF refl]
    parseAddressSetRef_classification [of _ "''testing''" id, OF refl]
  by simp

text \<open>
  C4 (as amended). \<open>parseAddressSetRef\<close> returns \<open>nil\<close> whenever the first part of the
  split display name is empty and there are fewer than 5 parts, which covers the empty
  string; it returns a reference of one of the three forms whenever the first part is
  non-empty or there are more than 5 parts.
\<close>

theorem parseAddressSetRef_unparseable:
  assumes "parts = strings_Split displayName (CHR ''.'')"
  shows "(parts ! 0 = [] \<and> length parts < 5 \<longrightarrow> parseAddressSetRef h displayName = None)
       \<and> (parts ! 0 \<noteq> [] \<or> length parts > 5 \<longrightarrow> parseAddressSetRef h displayName \<noteq> None)
       \<and> parseAddressSetRef h [] = None"
proof -
  have "1 \<le> length parts" unfolding assms by (rule strings_Split_length)
  then show ?thesis
    unfolding assms by (auto simp add: parseAddressSetRef_def Let_def)
qed

theorem parseAddressSetRef_unparseable_witness:
  "parseAddressSetRef id ''.a'' = None
   \<and> parseAddressSetRef id ''testing'' \<noteq> None
   \<and> parseAddressSetRef id ''.Namespace.v4.testing..blah'' \<noteq> None
   \<and> parseAddressSetRef id [] = None"
  using parseAddressSetRef_unparseable [of _ "''.a''" id, OF refl]
    parseAddressSetRef_unparseable [of _ "''testing''" id, OF refl]
    parseAddressSetRef_unparseable [of _ "''.Namespace.v4.testing..blah''" id, OF refl]
  by simp

text \<open>
  C4 as it is stated (unparseable exactly for the empty string, or a single empty part)
  fails at \<open>".a"\<close>: it is not empty and splits into the two parts \<open>""\<close> and \<open>"a"\<close>, yet it
  is unparseable.
\<close>

theorem parseAddressSetRef_unparseable_counterexample:
  "\<not> (parseAddressSetRef id ''.a'' = None
        \<longleftrightarrow> (''.a'' = [] \<or> strings_Split ''.a'' (CHR ''.'') = [[]]))"
  by (simp add: parseAddressSetRef_def)

text \<open>
  C9. No check of the family tag: whenever the display name is classified as the tagged
  form, the result is a reference, and its IPv6 flag is true exactly when \<open>parts[2]\<close> is
  \<open>"v6"\<close>; \<open>"v4"\<close>, \<open>"v5"\<close> or the empty string give IPv4 and never \<open>nil\<close>.
\<close>

theorem parseAddressSetRef_family_tag:
  assumes "parts = strings_Split displayName (CHR ''.'')"
    and "length parts > 5" and "parts ! 0 = []"
  shows "\<exists>r. parseAddressSetRef h displayName = Some r \<and> IPv6 r = (parts ! 2 = ''v6'')"
  using assms(2,3) unfolding assms(1)
  by (simp add: parseAddressSetRef_def Let_def)

theorem parseAddressSetRef_family_tag_witness:
  "(\<exists>r. parseAddressSetRef id ''.Namespace.v6.testing..blah'' = Some r \<and> IPv6 r)
   \<and> (\<exists>r. parseAddressSetRef id ''.Namespace.v4.testing..blah'' = Some r \<and> \<not> IPv6 r)
   \<and> (\<exists>r. parseAddressSetRef id ''.Namespace.v5.testing..blah'' = Some r \<and> \<not> IPv6 r)
   \<and> (\<exists>r. parseAddressSetRef id ''.Namespace..testing..blah'' = Some r \<and> \<not> IPv6 r)"
  using parseAddressSetRef_family_tag [of _ "''.Namespace.v6.testing..blah''" id, OF refl]
    parseAddressSetRef_family_tag [of _ "''.Namespace.v4.testing..blah''" id, OF refl]
    parseAddressSetRef_family_tag [of _ "''.Namespace.v5.testing..blah''" id, OF refl]
    parseAddressSetRef_family_tag [of _ "''.Namespace..testing..blah''" id, OF refl]
  by simp

text \<open>
  C10. A reference that \<open>parseAddressSetRef\<close> returns in the tagged form has at least one
  arg. The tagged form is recognised by its marker alone, the empty first part: whenever
  the first part is empty and the result is not \<open>nil\<close>, there are more than 5 parts and
  the args are \<open>parts[5:]\<close>, which is not empty.
\<close>

theorem parseAddressSetRef_tagged_args:
  assumes "parts = strings_Split displayName (CHR ''.'')"
    and "parts ! 0 = []"
    and "parseAddressSetRef h displayName = Some r"
  shows "elems (Args r) \<noteq> [] \<and> 5 < length parts \<and> Args r = Some (drop 5 parts)
           \<and> length (elems (Args r)) = length parts - 5"
proof -
  have tagged: "5 < length parts"
    using assms(2,3) unfolding assms(1)
    by (simp add: parseAddressSetRef_def Let_def split: if_splits)
  then have "Args r = Some (drop 5 parts)"
    using assms(2,3) unfolding assms(1)
    by (auto simp add: parseAddressSetRef_def Let_def)
  with tagged show ?thesis
    by (simp add: elems_def)
qed

theorem parseAddressSetRef_tagged_args_witness:
  "\<exists>r. parseAddressSetRef id ''.Namespace.v4.testing..blah'' = Some r
     \<and> Args r = Some [''blah''] \<and> elems (Args r) \<noteq> []"
proof -
  obtain r where r: "parseAddressSetRef id ''.Namespace.v4.testing..blah'' = Some r"
    by (simp add: parseAddressSetRef_def)
  have first: "strings_Split ''.Namespace.v4.testing..blah'' (CHR ''.'') ! 0 = []"
    by simp
  from parseAddressSetRef_tagged_args [OF refl first r] r
  show ?thesis by (simp add: elems_def)
qed

section \<open>The hashed name\<close>

text \<open>
  C5 (as amended). Every reference that \<open>parseAddressSetRef\<close> returns carries the digest of
  the display name as its hashed name, and the display name itself. (On the unparseable
  path the result is \<open>nil\<close> and carries nothing.)
\<close>

theorem parseAddressSetRef_hashedName:
  "parseAddressSetRef h displayName = Some r
     \<Longrightarrow> HashedName r = h displayName \<and> DisplayName r = displayName"
  by (auto simp add: parseAddressSetRef_def Let_def zeroAddressSetRef_def split: if_splits)

theorem parseAddressSetRef_hashedName_witness:
  "\<exists>r. parseAddressSetRef rev ''testing.policy'' = Some r
      \<and> HashedName r = ''ycilop.gnitset'' \<and> DisplayName r = ''testing.policy''"
proof -
  obtain r where r: "parseAddressSetRef rev ''testing.policy'' = Some r"
    by (simp add: parseAddressSetRef_def)
  from parseAddressSetRef_hashedName [OF r] r show ?thesis by simp
qed

text \<open>
  C5 as it is stated (the hashed name is there whatever the outcome) fails at the empty
  display name: the result is \<open>nil\<close>, and no hashed name comes with it.
\<close>

theorem parseAddressSetRef_hashedName_counterexample:
  "parseAddressSetRef id [] = None
   \<and> map_option HashedName (parseAddressSetRef id []) \<noteq> Some (id [])"
  by (simp add: parseAddressSetRef_def)

text \<open>
  C7. The hashed name depends on the display name alone: both \<open>newAddressSetRef\<close> and
  \<open>parseAddressSetRef\<close> set it to the digest of the display name of the reference they
  return, so two references with the same display name, one from each path, have the same
  hashed name. The digest is a function of its argument, the same on every call.
\<close>

theorem hashedName_of_displayName:
  assumes "newAddressSetRef h ownerType ipv6 ownerNamespace ownerName args = Some e"
    and "parseAddressSetRef h displayName = Some r"
  shows "HashedName e = h (DisplayName e) \<and> HashedName r = h (DisplayName r)
       \<and> (DisplayName e = DisplayName r \<longrightarrow> HashedName e = HashedName r)"
proof -
  have e: "HashedName e = h (DisplayName e)"
    using assms(1) by (auto simp add: newAddressSetRef_def Let_def)
  have r: "HashedName r = h (DisplayName r)"
    using assms(2)
    by (auto simp add: parseAddressSetRef_def Let_def split: if_splits)
  from e r show ?thesis by simp
qed

theorem hashedName_of_displayName_witness:
  "\<exists>e r. newAddressSetRef rev ''NetworkPolicy'' False ''testing'' ''policy'' None = Some e
      \<and> parseAddressSetRef rev ''testing.policy'' = Some r
      \<and> DisplayName e = DisplayName r
      \<and> HashedName e = ''ycilop.gnitset'' \<and> HashedName r = HashedName e"
proof -
  obtain e where e: "newAddressSetRef rev ''NetworkPolicy'' False ''testing'' ''policy'' None = Some e"
    by (simp add: newAddressSetRef_def)
  obtain r where r: "parseAddressSetRef rev ''testing.policy'' = Some r"
    by (simp add: parseAddressSetRef_def)
  have d: "DisplayName e = ''testing.policy''" "DisplayName r = ''testing.policy''"
    using e r by (auto simp add: newAddressSetRef_def parseAddressSetRef_def elems_def)
  from hashedName_of_displayName [OF e r] d e r show ?thesis by simp
qed

section \<open>Round trip\<close>

text \<open>
  C1 (as amended). Take a tuple whose strings contain no \<open>.\<close>; let its owner namespace be
  non-empty if it is encoded by rule (1) or (2), and its args be non-empty if it is encoded
  by rule (3). Then decoding the display name of its encoding gives back the owner type,
  the family, the owner namespace and the owner name exactly, and the args as the same
  sequence of strings: the same slice, but for \<open>nil\<close> args of a \<open>"NetworkPolicy"\<close>
  reference, which come back as an empty non-nil slice.
\<close>

theorem reparse_roundtrip:
  assumes nodot: "CHR ''.'' \<notin> set ownerType" "CHR ''.'' \<notin> set ownerNamespace"
      "CHR ''.'' \<notin> set ownerName" "CHR ''.'' \<notin> set (concat (elems args))"
    and legacy: "(ownerType = ''Namespace'' \<and> \<not> ipv6 \<and> ownerName = [] \<and> args = None)
                   \<or> (ownerType = ''NetworkPolicy'' \<and> \<not> ipv6) \<Longrightarrow> ownerNamespace \<noteq> []"
    and tagged: "\<not> (ownerType = ''Namespace'' \<and> \<not> ipv6 \<and> ownerName = [] \<and> args = None)
                   \<Longrightarrow> \<not> (ownerType = ''NetworkPolicy'' \<and> \<not> ipv6) \<Longrightarrow> elems args \<noteq> []"
  shows "\<exists>r. reparse h ownerType ipv6 ownerNamespace ownerName args = Some r
           \<and> OwnerType r = ownerType \<and> IPv6 r = ipv6 \<and> OwnerNamespace r = ownerNamespace
           \<and> OwnerName r = ownerName \<and> elems (Args r) = elems args
           \<and> Args r = (if args = None \<and> ownerType = ''NetworkPolicy'' then Some [] else args)"
proof -
  consider (bare) "ownerType = ''Namespace'' \<and> \<not> ipv6 \<and> ownerName = [] \<and> args = None"
    | (compact) "ownerType = ''NetworkPolicy'' \<and> \<not> ipv6"
    | (general) "\<not> (ownerType = ''Namespace'' \<and> \<not> ipv6 \<and> ownerName = [] \<and> args = None)"
        "\<not> (ownerType = ''NetworkPolicy'' \<and> \<not> ipv6)"
    by blast
  then show ?thesis
  proof cases
    case bare
    then have "ownerNamespace \<noteq> []" using legacy by blast
    from reparse_bare [OF nodot(2) this, of h] bare show ?thesis
      by (simp add: zeroAddressSetRef_def elems_def)
  next
    case compact
    then have "ownerNamespace \<noteq> []" using legacy by blast
    from reparse_compact [OF nodot(2) this nodot(3) nodot(4), of h] compact show ?thesis
      by (auto simp: elems_def split: option.splits)
  next
    case general
    then have ne: "elems args \<noteq> []" using tagged by blast
    from reparse_tagged [OF nodot ne general(2), of h] ne show ?thesis
      by (auto simp: elems_def split: option.splits)
  qed
qed

theorem reparse_roundtrip_witness:
  "(\<exists>r. reparse id ''Namespace'' False ''testing'' [] None = Some r
      \<and> OwnerType r = ''Namespace'' \<and> IPv6 r = False \<and> OwnerNamespace r = ''testing''
      \<and> OwnerName r = [] \<and> Args r = None)
   \<and> (\<exists>r. reparse id ''NetworkPolicy'' False ''testing'' ''policy'' (Some [''ingress'', ''1'']) = Some r
      \<and> OwnerType r = ''NetworkPolicy'' \<and> IPv6 r = False \<and> OwnerNamespace r = ''testing''
      \<and> OwnerName r = ''policy'' \<and> Args r = Some [''ingress'', ''1''])
   \<and> (\<exists>r. reparse id ''Namespace'' True ''testing'' [] (Some [''blah'', ''blah'']) = Some r
      \<and> OwnerType r = ''Namespace'' \<and> IPv6 r = True \<and> OwnerNamespace r = ''testing''
      \<and> OwnerName r = [] \<and> Args r = Some [''blah'', ''blah''])"
  using reparse_roundtrip [of "''Namespace''" "''testing''" "[]" None False id]
    reparse_roundtrip [of "''NetworkPolicy''" "''testing''" "''policy''" "Some [''ingress'', ''1'']" False id]
    reparse_roundtrip [of "''Namespace''" "''testing''" "[]" "Some [''blah'', ''blah'']" True id]
  by (auto simp: elems_def)

text \<open>
  The round trip of C1 as it is stated fails at tuples without any \<open>.\<close> that are not of
  the excepted kind (tagged form, empty owner name, empty args). With an empty owner
  namespace, the \<open>"Namespace"\<close> reference encodes to \<open>""\<close>, which does not parse, and the
  \<open>"NetworkPolicy"\<close> reference \<open>("", "a", ["b", "c", "d", "e"])\<close> encodes to \<open>".a.b.c.d.e"\<close>,
  which parses as a tagged reference of owner type \<open>"a"\<close>. The tagged reference with owner
  name \<open>"also-testing"\<close> and no args encodes to five parts, which do not parse. And the
  \<open>nil\<close> args of a \<open>"NetworkPolicy"\<close> reference come back non-nil.
\<close>

theorem reparse_roundtrip_counterexample:
  "reparse id ''Namespace'' False [] [] None = None
   \<and> map_option OwnerType (reparse id ''NetworkPolicy'' False [] ''a'' (Some [''b'', ''c'', ''d'', ''e''])) = Some ''a''
   \<and> reparse id ''Namespace'' False ''testing'' ''also-testing'' None = None
   \<and> map_option Args (reparse id ''NetworkPolicy'' False ''testing'' ''policy'' None) = Some (Some [])"
  by (simp add: reparse_def newAddressSetRef_def parseAddressSetRef_def elems_def)

end
